theory Spec2Isabelle
  imports Complex_Main "HOL-Library.Word" "HOL-Library.Log_Nat"
begin

unbundle bit_operations_syntax

section \<open>Machine types\<close>

type_synonym u8 = "8 word"
type_synonym u16 = "16 word"
type_synonym u32 = "32 word"

section \<open>The event scheduler of scheduler.c\<close>

text \<open>Bit positions of the three scheduler events (the \<^verbatim>\<open>#define\<close>s at the top of
  scheduler.c).\<close>

definition LETIMERUF_BIT_POS :: nat where
  "LETIMERUF_BIT_POS = 0"

definition LETIMERCOMP1_BIT_POS :: nat where
  "LETIMERCOMP1_BIT_POS = 1"

definition I2C_TRANSFER_COMPLETE_BIT_POS :: nat where
  "I2C_TRANSFER_COMPLETE_BIT_POS = 2"

text \<open>Modelled from the spec: the event kinds returned by \<^verbatim>\<open>getNextEvent\<close>. The constants
  \<^verbatim>\<open>EVENT_NONE\<close>, \<^verbatim>\<open>EVENT_LETIMER_UF\<close>, \<^verbatim>\<open>EVENT_LETIMER_COMP1\<close> and
  \<^verbatim>\<open>EVENT_I2C_TRANSFER_COMPLETE\<close> are declared in scheduler.h, which is not part of the
  sources at hand. The spec names three event kinds and a sentinel "none" value; the three
  kinds are the labels of one \<^verbatim>\<open>switch\<close>, so they are pairwise different.\<close>

datatype event =
    EVENT_NONE
  | EVENT_LETIMER_UF
  | EVENT_LETIMER_COMP1
  | EVENT_I2C_TRANSFER_COMPLETE

text \<open>The three setters that write \<^verbatim>\<open>SchedulerEvents\<close>; each ORs one bit into the global
  mask. (The call of \<^verbatim>\<open>sl_bt_external_signal\<close> leaves the mask alone.)\<close>

definition schedulerSetEventLETIMER0Comp1 :: "u32 \<Rightarrow> u32" where
  "schedulerSetEventLETIMER0Comp1 SchedulerEvents =
     SchedulerEvents OR push_bit LETIMERCOMP1_BIT_POS 1"

definition schedulerSetEventLETIMER0UF :: "u32 \<Rightarrow> u32" where
  "schedulerSetEventLETIMER0UF SchedulerEvents =
     SchedulerEvents OR push_bit LETIMERUF_BIT_POS 1"

definition schedulerSetEventI2CTransferDone :: "u32 \<Rightarrow> u32" where
  "schedulerSetEventI2CTransferDone SchedulerEvents =
     SchedulerEvents OR push_bit I2C_TRANSFER_COMPLETE_BIT_POS 1"

text \<open>\<^verbatim>\<open>getNextEvent\<close>: the global mask goes in, the returned event and the updated mask
  come out. First the if/else-if chain that picks the event, then the \<^verbatim>\<open>switch\<close> that
  clears its bit (no case for \<^verbatim>\<open>EVENT_NONE\<close>).\<close>

definition getNextEvent :: "u32 \<Rightarrow> event \<times> u32" where
  "getNextEvent SchedulerEvents =
     (let ReturnEvent =
        (if SchedulerEvents AND push_bit I2C_TRANSFER_COMPLETE_BIT_POS 1 \<noteq> 0
           then EVENT_I2C_TRANSFER_COMPLETE
         else if SchedulerEvents AND push_bit LETIMERCOMP1_BIT_POS 1 \<noteq> 0
           then EVENT_LETIMER_COMP1
         else if SchedulerEvents AND push_bit LETIMERUF_BIT_POS 1 \<noteq> 0
           then EVENT_LETIMER_UF
         else EVENT_NONE)
      in (ReturnEvent,
          (case ReturnEvent of
             EVENT_LETIMER_COMP1 \<Rightarrow>
               SchedulerEvents AND NOT (push_bit LETIMERCOMP1_BIT_POS 1)
           | EVENT_LETIMER_UF \<Rightarrow>
               SchedulerEvents AND NOT (push_bit LETIMERUF_BIT_POS 1)
           | EVENT_I2C_TRANSFER_COMPLETE \<Rightarrow>
               SchedulerEvents AND NOT (push_bit I2C_TRANSFER_COMPLETE_BIT_POS 1)
           | EVENT_NONE \<Rightarrow> SchedulerEvents)))"

section \<open>Events of the Bluetooth stack and the shared connection data\<close>

text \<open>Modelled from the spec: the message identifiers that \<^verbatim>\<open>SL_BT_MSG_ID(evt->header)\<close> is
  compared with. They are constants of the Bluetooth SDK headers, which are not part of the
  sources at hand; the four the code names are different events of the stack, every other
  identifier is \<open>sl_bt_evt_other\<close>.\<close>

datatype msg_id =
    sl_bt_evt_system_external_signal_id
  | sl_bt_evt_connection_opened_id
  | sl_bt_evt_connection_closed_id
  | sl_bt_evt_gatt_procedure_completed_id
  | sl_bt_evt_other u32

text \<open>The two parts of \<^verbatim>\<open>sl_bt_msg_t\<close> that scheduler.c reads: the identifier in the header
  and \<^verbatim>\<open>data.evt_system_external_signal.extsignals\<close>.\<close>

record sl_bt_msg_t =
  header :: msg_id
  extsignals :: u32

text \<open>Modelled from the spec: the fields of \<^verbatim>\<open>ble_data_struct_t\<close> (declared in ble.h, not
  part of the sources at hand) that scheduler.c reads or writes, with the widths the SDK
  gives to connection, service and characteristic handles.\<close>

record ble_data_struct_t =
  connection_open :: bool
  ok_to_send_htm_indications :: bool
  indication_in_flight :: bool
  connectionHandle :: u8
  serviceHandle :: u32
  characteristicHandle :: u16
  serviceHandleHTM :: u32
  characteristicHandleHTM :: u16
  serviceHandleButton :: u32
  characteristicHandleButton :: u16
  isIndicationOnButton :: bool

datatype State_t =
    stateIdle
  | waitForSi7021POR
  | waitForI2CWriteTransfer
  | waitForSi7021Conversion
  | waitForI2CReadTransfer

datatype Discovery_States_t =
    State_1 | State_2 | State_3 | State_4 | State_5 | State_6 | State_7

definition SI7021_POR_TIME_US :: nat where
  "SI7021_POR_TIME_US = 80000"

definition SI7021_14B_CONVERSION_TIME_US :: nat where
  "SI7021_14B_CONVERSION_TIME_US = 10800"

definition SL_STATUS_OK :: u32 where
  "SL_STATUS_OK = 0"

definition flags :: u8 where
  "flags = 0x00"

definition thermo_service :: "u8 list" where
  "thermo_service = [0x09, 0x18]"

definition thermo_char :: "u8 list" where
  "thermo_char = [0x1c, 0x2a]"

definition button_service :: "u8 list" where
  "button_service = [0x89, 0x62, 0x13, 0x2d, 0x2a, 0x65, 0xec, 0x87,
                     0x3e, 0x43, 0xc8, 0x38, 0x01, 0x00, 0x00, 0x00]"

definition button_char :: "u8 list" where
  "button_char = [0x89, 0x62, 0x13, 0x2d, 0x2a, 0x65, 0xec, 0x87,
                  0x3e, 0x43, 0xc8, 0x38, 0x02, 0x00, 0x00, 0x00]"

section \<open>Calls to the collaborators\<close>

text \<open>Every call that the two state machines make to a driver or to the Bluetooth stack is
  recorded, with its arguments, in the order the code makes it. The sensor address and
  command of the two I2C calls, the interrupt number and the attribute handle are constants
  of headers outside scheduler.c; their calls carry the remaining arguments.\<close>

datatype display_row = DISPLAY_ROW_TEMPVALUE | DISPLAY_ROW_CONNECTION

datatype gattdb_handle = gattdb_temperature_measurement

datatype call =
    si7021TurnOn
  | si7021TurnOff
  | timerWaitUs_irq nat
  | I2C_Write_Data_itr
  | I2C_Read_Data_irq
  | NVIC_DisableIRQ
  | sl_bt_gatt_server_write_attribute_value gattdb_handle nat nat "u8 list"
  | sl_bt_gatt_server_send_indication u8 gattdb_handle nat "u8 list"
  | write_queue gattdb_handle nat "u8 list"
  | displayPrintf display_row string "u32 list"
  | LOG_ERROR string u32
  | sl_bt_gatt_discover_primary_services_by_uuid u8 nat "u8 list"
  | sl_bt_gatt_discover_characteristics_by_uuid u8 u32 nat "u8 list"
  | sl_bt_gatt_set_characteristic_notification u8 u16

text \<open>The state that outlives one dispatch: the \<^verbatim>\<open>static\<close> variable \<^verbatim>\<open>nextState\<close> of each
  machine, the data behind \<^verbatim>\<open>get_ble_data_ptr()\<close>, the two globals of the temperature
  reading, and the calls made so far (oldest first).\<close>

record world =
  temperature_nextState :: State_t
  discovery_nextState :: Discovery_States_t
  bleData :: ble_data_struct_t
  htm_temperature_buffer :: "u8 list"
  htm_temperature_flt :: u32
  calls :: "call list"

text \<open>What the collaborators hand back during one dispatch: the 16 bits of
  \<^verbatim>\<open>I2C_Get_Data()\<close>, the value of \<^verbatim>\<open>get_queue_depth()\<close>, the status code \<^verbatim>\<open>sc\<close> of the one
  checked stack call a dispatch makes, and the value the target's conversion routine yields
  for a \<^verbatim>\<open>double\<close> outside the range of \<^verbatim>\<open>uint32_t\<close> (C leaves that conversion
  undefined).\<close>

record env =
  I2C_Get_Data :: u16
  get_queue_depth :: nat
  sc :: u32
  double_out_of_range :: u32

definition do_call :: "call \<Rightarrow> world \<Rightarrow> world" where
  "do_call c w = w\<lparr>calls := calls w @ [c]\<rparr>"

section \<open>The arithmetic of the temperature conversion\<close>

text \<open>The conversion \<^verbatim>\<open>((Si7021_data*175.72)/65536) - 46.85\<close> is computed in C's \<^verbatim>\<open>double\<close>.
  A finite \<^verbatim>\<open>double\<close> is a rational number, and every operation yields the exact result
  rounded to the nearest number with a 53-bit significand, ties to the even significand.
  All values of this computation lie far inside the exponent range of the format, so the
  exponent is left unbounded.

  \<open>ilog2 x\<close> is the exponent of a positive \<open>x\<close>: \<open>2 powi ilog2 x \<le> x < 2 powi (ilog2 x + 1)\<close>.\<close>

definition ilog2 :: "rat \<Rightarrow> int" where
  "ilog2 x = (if 1 \<le> x then bitlen \<lfloor>x\<rfloor> - 1 else - bitlen (\<lceil>1 / x\<rceil> - 1))"

definition round_half_even :: "rat \<Rightarrow> int" where
  "round_half_even x =
     (let f = \<lfloor>x\<rfloor>; r = x - of_int f
      in if r < 1 / 2 then f
         else if 1 / 2 < r then f + 1
         else if even f then f else f + 1)"

definition round_to_double :: "rat \<Rightarrow> rat" where
  "round_to_double x =
     (if x = 0 then 0
      else let e = ilog2 \<bar>x\<bar> - 52
           in of_int (round_half_even (x / 2 powi e)) * 2 powi e)"

text \<open>Conversion of a \<^verbatim>\<open>double\<close> to \<^verbatim>\<open>uint32_t\<close>: the fraction is discarded (truncation
  towards zero). When the truncated value is not a \<^verbatim>\<open>uint32_t\<close>, C leaves the conversion
  undefined; \<open>oor\<close> stands for whatever the target yields then.\<close>

definition truncate_to_zero :: "rat \<Rightarrow> int" where
  "truncate_to_zero x = (if 0 \<le> x then \<lfloor>x\<rfloor> else \<lceil>x\<rceil>)"

definition double_to_uint32 :: "u32 \<Rightarrow> rat \<Rightarrow> u32" where
  "double_to_uint32 oor x =
     (let t = truncate_to_zero x
      in if 0 \<le> t \<and> t < 2 ^ 32 then word_of_int t else oor)"

text \<open>The value of the expression \<^verbatim>\<open>((Si7021_data*175.72)/65536) - 46.85\<close>, a \<^verbatim>\<open>double\<close>:
  the two decimal constants are rounded when the program is compiled, the product, the
  quotient and the difference when it runs.\<close>

definition celsius_double :: "u16 \<Rightarrow> rat" where
  "celsius_double Si7021_data =
     round_to_double
       (round_to_double
          (round_to_double (of_int (uint Si7021_data) * round_to_double (17572 / 100)) / 65536)
        - round_to_double (4685 / 100))"

text \<open>The assignment \<^verbatim>\<open>temperature_reading = ((Si7021_data*175.72)/65536) - 46.85\<close> to the
  \<^verbatim>\<open>uint32_t\<close> variable.\<close>

definition temperature_conversion :: "u32 \<Rightarrow> u16 \<Rightarrow> u32" where
  "temperature_conversion oor Si7021_data = double_to_uint32 oor (celsius_double Si7021_data)"

text \<open>The sensor's formula in exact arithmetic, for comparison: \<open>raw * 175.72 / 65536 - 46.85\<close>.\<close>

definition celsius_exact :: "u16 \<Rightarrow> rat" where
  "celsius_exact raw = of_int (uint raw) * (17572 / 100) / 65536 - 4685 / 100"

section \<open>The encoding of the reading\<close>

text \<open>Modelled from the spec: the macros \<^verbatim>\<open>UINT8_TO_BITSTREAM\<close>, \<^verbatim>\<open>UINT32_TO_BITSTREAM\<close> and
  \<^verbatim>\<open>INT32_TO_FLOAT\<close> are defined in a header that is not part of the sources at hand. By the
  spec the buffer holds one flags byte and then the measurement as a little-endian 4-byte
  mantissa-plus-exponent value: the mantissa in the low 24 bits, the exponent in the top
  byte. Each stream macro yields the bytes it stores through the advancing pointer \<^verbatim>\<open>p\<close>.\<close>

definition UINT8_TO_BITSTREAM :: "u8 \<Rightarrow> u8 list" where
  "UINT8_TO_BITSTREAM n = [n]"

definition UINT32_TO_BITSTREAM :: "u32 \<Rightarrow> u8 list" where
  "UINT32_TO_BITSTREAM n =
     [ucast n, ucast (drop_bit 8 n), ucast (drop_bit 16 n), ucast (drop_bit 24 n)]"

definition INT32_TO_FLOAT :: "u32 \<Rightarrow> int \<Rightarrow> u32" where
  "INT32_TO_FLOAT m e = (m AND 0x00FFFFFF) OR push_bit 24 (word_of_int e)"

section \<open>The acquisition state machine\<close>

text \<open>The body of the \<^verbatim>\<open>if\<close> in state \<^verbatim>\<open>waitForI2CReadTransfer\<close>, entered when the
  transfer-complete bit is set: the sensor is switched off, the reading is converted,
  encoded into the five bytes of \<^verbatim>\<open>htm_temperature_buffer\<close> and written to the GATT data
  base; then the indication is sent or queued, and the display is updated.\<close>

definition read_transfer_complete :: "env \<Rightarrow> world \<Rightarrow> world" where
  "read_transfer_complete en w =
     (let w1 = do_call si7021TurnOff (do_call NVIC_DisableIRQ w);
          Si7021_data = I2C_Get_Data en;
          temperature_reading = temperature_conversion (double_out_of_range en) Si7021_data;
          flt = INT32_TO_FLOAT (temperature_reading * 1000) (- 3);
          buf = UINT8_TO_BITSTREAM flags @ UINT32_TO_BITSTREAM flt;
          w2 = w1\<lparr>htm_temperature_flt := flt, htm_temperature_buffer := buf\<rparr>;
          w3 = do_call (sl_bt_gatt_server_write_attribute_value
                          gattdb_temperature_measurement 0 5 buf) w2;
          bleDataPtr = bleData w3;
          w4 =
           (if connection_open bleDataPtr = True \<and> ok_to_send_htm_indications bleDataPtr = True
            then
              (let w5 =
                 (if \<not> (indication_in_flight bleDataPtr = False \<or> 0 < get_queue_depth en)
                  then
                    (let w6 = do_call (sl_bt_gatt_server_send_indication
                                         (connectionHandle bleDataPtr)
                                         gattdb_temperature_measurement 5 buf) w3;
                         w7 = (if sc en \<noteq> SL_STATUS_OK
                               then do_call (LOG_ERROR ''sl_bt_gatt_server_send_indication''
                                               (sc en)) w6
                               else w6)
                     in w7\<lparr>bleData := (bleData w7)\<lparr>indication_in_flight := True\<rparr>\<rparr>)
                  else do_call (write_queue gattdb_temperature_measurement 5 buf) w3)
               in do_call (displayPrintf DISPLAY_ROW_TEMPVALUE ''Temp=%d''
                             [temperature_reading]) w5)
            else do_call (displayPrintf DISPLAY_ROW_TEMPVALUE [] []) w3)
      in w4\<lparr>temperature_nextState := stateIdle\<rparr>)"

text \<open>\<^verbatim>\<open>temperature_state_machine_bt\<close>: one dispatch of the machine. The guard on the event
  class, the connection and the indications; the \<^verbatim>\<open>switch\<close> on the held state, where every
  case first keeps the state and then tests its one trigger bit; and the final clearing of
  the display row.\<close>

definition temperature_state_machine_bt :: "env \<Rightarrow> sl_bt_msg_t \<Rightarrow> world \<Rightarrow> world" where
  "temperature_state_machine_bt en evt w =
     (let currentState = temperature_nextState w;
          bleDataPtr = bleData w;
          w1 =
           (if header evt = sl_bt_evt_system_external_signal_id \<and>
               connection_open bleDataPtr = True \<and>
               ok_to_send_htm_indications bleDataPtr = True
            then
              (case currentState of
                 stateIdle \<Rightarrow>
                   (if extsignals evt AND push_bit LETIMERUF_BIT_POS 1 \<noteq> 0
                    then (do_call (timerWaitUs_irq SI7021_POR_TIME_US)
                            (do_call si7021TurnOn w))
                           \<lparr>temperature_nextState := waitForSi7021POR\<rparr>
                    else w\<lparr>temperature_nextState := stateIdle\<rparr>)
               | waitForSi7021POR \<Rightarrow>
                   (if extsignals evt AND push_bit LETIMERCOMP1_BIT_POS 1 \<noteq> 0
                    then (do_call I2C_Write_Data_itr w)
                           \<lparr>temperature_nextState := waitForI2CWriteTransfer\<rparr>
                    else w\<lparr>temperature_nextState := waitForSi7021POR\<rparr>)
               | waitForI2CWriteTransfer \<Rightarrow>
                   (if extsignals evt AND push_bit I2C_TRANSFER_COMPLETE_BIT_POS 1 \<noteq> 0
                    then (do_call (timerWaitUs_irq SI7021_14B_CONVERSION_TIME_US)
                            (do_call NVIC_DisableIRQ w))
                           \<lparr>temperature_nextState := waitForSi7021Conversion\<rparr>
                    else w\<lparr>temperature_nextState := waitForI2CWriteTransfer\<rparr>)
               | waitForSi7021Conversion \<Rightarrow>
                   (if extsignals evt AND push_bit LETIMERCOMP1_BIT_POS 1 \<noteq> 0
                    then (do_call I2C_Read_Data_irq w)
                           \<lparr>temperature_nextState := waitForI2CReadTransfer\<rparr>
                    else w\<lparr>temperature_nextState := waitForSi7021Conversion\<rparr>)
               | waitForI2CReadTransfer \<Rightarrow>
                   (if extsignals evt AND push_bit I2C_TRANSFER_COMPLETE_BIT_POS 1 \<noteq> 0
                    then read_transfer_complete en w
                    else w\<lparr>temperature_nextState := waitForI2CReadTransfer\<rparr>))
            else w)
      in if connection_open (bleData w1) = False \<or>
            ok_to_send_htm_indications (bleData w1) = False
         then do_call (displayPrintf DISPLAY_ROW_TEMPVALUE [] []) w1
         else w1)"

section \<open>The discovery state machine\<close>

text \<open>A stack call whose status code is checked: the call, then \<^verbatim>\<open>LOG_ERROR\<close> when the
  status is not \<^verbatim>\<open>SL_STATUS_OK\<close>.\<close>

definition checked_call :: "env \<Rightarrow> call \<Rightarrow> string \<Rightarrow> world \<Rightarrow> world" where
  "checked_call en c name w =
     (let w1 = do_call c w
      in if sc en \<noteq> SL_STATUS_OK then do_call (LOG_ERROR name (sc en)) w1 else w1)"

text \<open>\<^verbatim>\<open>Discovery_State_Machine\<close>: one dispatch. Every case first keeps the state and then
  tests the identifier of the event.\<close>

definition Discovery_State_Machine :: "env \<Rightarrow> sl_bt_msg_t \<Rightarrow> world \<Rightarrow> world" where
  "Discovery_State_Machine en evt w =
     (let currentState = discovery_nextState w;
          bleDataPtr = bleData w
      in case currentState of
           State_1 \<Rightarrow>
             (if header evt = sl_bt_evt_connection_opened_id
              then (checked_call en
                      (sl_bt_gatt_discover_primary_services_by_uuid
                         (connectionHandle bleDataPtr) (length thermo_service) thermo_service)
                      ''sl_bt_gatt_discover_primary_services_by_uuid'' w)
                     \<lparr>discovery_nextState := State_2\<rparr>
              else w\<lparr>discovery_nextState := State_1\<rparr>)
         | State_2 \<Rightarrow>
             (if header evt = sl_bt_evt_gatt_procedure_completed_id
              then (let b = bleDataPtr\<lparr>serviceHandleHTM := serviceHandle bleDataPtr\<rparr>
                    in (checked_call en
                          (sl_bt_gatt_discover_characteristics_by_uuid
                             (connectionHandle b) (serviceHandleHTM b)
                             (length thermo_char) thermo_char)
                          ''sl_bt_gatt_discover_characteristics_by_uuid''
                          (w\<lparr>bleData := b\<rparr>))
                         \<lparr>discovery_nextState := State_3\<rparr>)
              else w\<lparr>discovery_nextState := State_2\<rparr>)
         | State_3 \<Rightarrow>
             (if header evt = sl_bt_evt_gatt_procedure_completed_id
              then (let b = bleDataPtr
                              \<lparr>characteristicHandleHTM := characteristicHandle bleDataPtr\<rparr>
                    in (checked_call en
                          (sl_bt_gatt_set_characteristic_notification
                             (connectionHandle b) (characteristicHandleHTM b))
                          ''sl_bt_gatt_set_characteristic_notification''
                          (w\<lparr>bleData := b\<rparr>))
                         \<lparr>discovery_nextState := State_4\<rparr>)
              else w\<lparr>discovery_nextState := State_3\<rparr>)
         | State_4 \<Rightarrow>
             (if header evt = sl_bt_evt_gatt_procedure_completed_id
              then (checked_call en
                      (sl_bt_gatt_discover_primary_services_by_uuid
                         (connectionHandle bleDataPtr) (length button_service) button_service)
                      ''sl_bt_gatt_discover_primary_services_by_uuid''
                      (do_call (displayPrintf DISPLAY_ROW_CONNECTION
                                  ''Handling Indications'' []) w))
                     \<lparr>discovery_nextState := State_5\<rparr>
              else w\<lparr>discovery_nextState := State_4\<rparr>)
         | State_5 \<Rightarrow>
             (if header evt = sl_bt_evt_gatt_procedure_completed_id
              then (let b = bleDataPtr\<lparr>serviceHandleButton := serviceHandle bleDataPtr\<rparr>
                    in (checked_call en
                          (sl_bt_gatt_discover_characteristics_by_uuid
                             (connectionHandle b) (serviceHandleButton b)
                             (length button_char) button_char)
                          ''sl_bt_gatt_discover_characteristics_by_uuid''
                          (w\<lparr>bleData := b\<rparr>))
                         \<lparr>discovery_nextState := State_6\<rparr>)
              else w\<lparr>discovery_nextState := State_5\<rparr>)
         | State_6 \<Rightarrow>
             (if header evt = sl_bt_evt_gatt_procedure_completed_id
              then (let b = bleDataPtr
                              \<lparr>characteristicHandleButton := characteristicHandle bleDataPtr\<rparr>;
                        w1 = checked_call en
                               (sl_bt_gatt_set_characteristic_notification
                                  (connectionHandle b) (characteristicHandleButton b))
                               ''sl_bt_gatt_set_characteristic_notification''
                               (w\<lparr>bleData := b\<rparr>)
                    in w1\<lparr>bleData := (bleData w1)\<lparr>isIndicationOnButton := True\<rparr>,
                           discovery_nextState := State_7\<rparr>)
              else w\<lparr>discovery_nextState := State_6\<rparr>)
         | State_7 \<Rightarrow>
             (if header evt = sl_bt_evt_connection_closed_id
              then w\<lparr>discovery_nextState := State_1\<rparr>
              else w\<lparr>discovery_nextState := State_7\<rparr>))"

text \<open>Feeding a list of dispatches, each with what the collaborators hand back during it, to
  a machine; the result lists the held state after each dispatch.\<close>

fun run_temperature :: "(env \<times> sl_bt_msg_t) list \<Rightarrow> world \<Rightarrow> State_t list \<times> world" where
  "run_temperature [] w = ([], w)"
| "run_temperature ((en, evt) # rest) w =
     (let w1 = temperature_state_machine_bt en evt w;
          (states, w2) = run_temperature rest w1
      in (temperature_nextState w1 # states, w2))"

fun run_discovery ::
  "(env \<times> sl_bt_msg_t) list \<Rightarrow> world \<Rightarrow> Discovery_States_t list \<times> world" where
  "run_discovery [] w = ([], w)"
| "run_discovery ((en, evt) # rest) w =
     (let w1 = Discovery_State_Machine en evt w;
          (states, w2) = run_discovery rest w1
      in (discovery_nextState w1 # states, w2))"

text \<open>The trigger bit that the acquisition machine tests in each state.\<close>

fun trigger_bit :: "State_t \<Rightarrow> nat" where
  "trigger_bit stateIdle = LETIMERUF_BIT_POS"
| "trigger_bit waitForSi7021POR = LETIMERCOMP1_BIT_POS"
| "trigger_bit waitForI2CWriteTransfer = I2C_TRANSFER_COMPLETE_BIT_POS"
| "trigger_bit waitForSi7021Conversion = LETIMERCOMP1_BIT_POS"
| "trigger_bit waitForI2CReadTransfer = I2C_TRANSFER_COMPLETE_BIT_POS"

section \<open>Concrete inputs\<close>

text \<open>A connected peer that has armed the indications, a freshly started node, what the
  collaborators hand back for the raw code \<open>0x6A89\<close>, and the events of the stack.\<close>

definition ble_connected :: ble_data_struct_t where
  "ble_connected =
     \<lparr>connection_open = True, ok_to_send_htm_indications = True,
      indication_in_flight = False, connectionHandle = 1,
      serviceHandle = 0, characteristicHandle = 0,
      serviceHandleHTM = 0, characteristicHandleHTM = 0,
      serviceHandleButton = 0, characteristicHandleButton = 0,
      isIndicationOnButton = False\<rparr>"

definition world0 :: world where
  "world0 =
     \<lparr>temperature_nextState = stateIdle, discovery_nextState = State_1,
      bleData = ble_connected, htm_temperature_buffer = [0, 0, 0, 0, 0],
      htm_temperature_flt = 0, calls = []\<rparr>"

definition env0 :: env where
  "env0 = \<lparr>I2C_Get_Data = 0x6A89, get_queue_depth = 0, sc = 0, double_out_of_range = 0\<rparr>"

definition external_signal :: "nat \<Rightarrow> sl_bt_msg_t" where
  "external_signal b =
     \<lparr>header = sl_bt_evt_system_external_signal_id, extsignals = push_bit b 1\<rparr>"

definition stack_event :: "msg_id \<Rightarrow> sl_bt_msg_t" where
  "stack_event i = \<lparr>header = i, extsignals = 0\<rparr>"

definition ble_closed :: ble_data_struct_t where
  "ble_closed = ble_connected\<lparr>connection_open := False\<rparr>"

definition world_reading :: world where
  "world_reading = world0\<lparr>temperature_nextState := waitForI2CReadTransfer\<rparr>"

section \<open>Bits of the event mask\<close>

lemma mask_test_iff_bit: "(m AND push_bit n 1 \<noteq> 0) = bit m n" for m :: u32
  by (simp only: bit_iff_and_push_bit_not_eq_0)

lemma bit_clear_iff: "bit (m AND NOT (2 ^ k)) n = (bit m n \<and> n \<noteq> k)" for m :: u32
  by (auto simp add: bit_simps dest: bit_imp_le_length)

lemmas bit_pos_defs =
  LETIMERUF_BIT_POS_def LETIMERCOMP1_BIT_POS_def I2C_TRANSFER_COMPLETE_BIT_POS_def

lemma getNextEvent_fst:
  "fst (getNextEvent m) =
     (if bit m I2C_TRANSFER_COMPLETE_BIT_POS then EVENT_I2C_TRANSFER_COMPLETE
      else if bit m LETIMERCOMP1_BIT_POS then EVENT_LETIMER_COMP1
      else if bit m LETIMERUF_BIT_POS then EVENT_LETIMER_UF
      else EVENT_NONE)"
  unfolding getNextEvent_def mask_test_iff_bit by simp

lemma getNextEvent_snd_bit:
  "bit (snd (getNextEvent m)) n =
     (bit m n \<and>
      (case fst (getNextEvent m) of
         EVENT_NONE \<Rightarrow> True
       | EVENT_LETIMER_UF \<Rightarrow> n \<noteq> LETIMERUF_BIT_POS
       | EVENT_LETIMER_COMP1 \<Rightarrow> n \<noteq> LETIMERCOMP1_BIT_POS
       | EVENT_I2C_TRANSFER_COMPLETE \<Rightarrow> n \<noteq> I2C_TRANSFER_COMPLETE_BIT_POS))"
  unfolding getNextEvent_def mask_test_iff_bit Let_def
  by (simp add: bit_clear_iff)

section \<open>The scheduler: priority and clearing\<close>

text \<open>Claim C4. For every value of the pending-event mask, \<^verbatim>\<open>getNextEvent\<close> returns the
  pending event of highest priority, in the order transfer-complete, compare-match,
  underflow, and \<open>EVENT_NONE\<close> when none of the three bits is set. The mask it leaves has
  exactly the bit of the returned event cleared: every bit \<open>n\<close> of the new mask is the bit
  \<open>n\<close> of the old one, except the bit of the returned event, which is off; when
  \<open>EVENT_NONE\<close> is returned no bit changes.\<close>

theorem getNextEvent_highest_priority_cleared:
  "fst (getNextEvent m) =
     (if bit m I2C_TRANSFER_COMPLETE_BIT_POS then EVENT_I2C_TRANSFER_COMPLETE
      else if bit m LETIMERCOMP1_BIT_POS then EVENT_LETIMER_COMP1
      else if bit m LETIMERUF_BIT_POS then EVENT_LETIMER_UF
      else EVENT_NONE) \<and>
   (\<forall>n. bit (snd (getNextEvent m)) n =
     (bit m n \<and>
      (case fst (getNextEvent m) of
         EVENT_NONE \<Rightarrow> True
       | EVENT_LETIMER_UF \<Rightarrow> n \<noteq> LETIMERUF_BIT_POS
       | EVENT_LETIMER_COMP1 \<Rightarrow> n \<noteq> LETIMERCOMP1_BIT_POS
       | EVENT_I2C_TRANSFER_COMPLETE \<Rightarrow> n \<noteq> I2C_TRANSFER_COMPLETE_BIT_POS)))"
  using getNextEvent_fst getNextEvent_snd_bit by blast

text \<open>The theorem at the mask \<open>0b110\<close> (transfer-complete and compare-match pending), at
  \<open>0b011\<close>, at the underflow bit alone, and at a mask with none of the three bits: the
  event returned and the mask left behind.\<close>

theorem getNextEvent_highest_priority_cleared_witness:
  "getNextEvent 6 = (EVENT_I2C_TRANSFER_COMPLETE, 2) \<and>
   getNextEvent 3 = (EVENT_LETIMER_COMP1, 1) \<and>
   getNextEvent 1 = (EVENT_LETIMER_UF, 0) \<and>
   getNextEvent 24 = (EVENT_NONE, 24) \<and>
   fst (getNextEvent 6) = EVENT_I2C_TRANSFER_COMPLETE \<and>
   \<not> bit (snd (getNextEvent 6)) I2C_TRANSFER_COMPLETE_BIT_POS \<and>
   bit (snd (getNextEvent 6)) LETIMERCOMP1_BIT_POS"
  using getNextEvent_highest_priority_cleared [of 6]
  by (simp add: getNextEvent_def bit_pos_defs)

text \<open>Claim C5 as stated fails: with transfer-complete and compare-match both pending (mask
  \<open>0b110\<close>) the first call returns transfer-complete and the second call, with nothing
  posted in between, returns compare-match, not \<open>EVENT_NONE\<close>.\<close>

theorem getNextEvent_twice_counterexample:
  "fst (getNextEvent 6) = EVENT_I2C_TRANSFER_COMPLETE \<and>
   fst (getNextEvent (snd (getNextEvent 6))) = EVENT_LETIMER_COMP1"
  by (simp add: getNextEvent_def bit_pos_defs)

text \<open>Claim C5, amended. For every starting mask, a second call of \<^verbatim>\<open>getNextEvent\<close> with
  nothing posted in between returns the pending event of second-highest priority; it
  returns \<open>EVENT_NONE\<close> exactly when at most one of the three event bits was set in the
  starting mask.\<close>

theorem getNextEvent_twice:
  "fst (getNextEvent (snd (getNextEvent m))) =
     (if bit m I2C_TRANSFER_COMPLETE_BIT_POS
      then (if bit m LETIMERCOMP1_BIT_POS then EVENT_LETIMER_COMP1
            else if bit m LETIMERUF_BIT_POS then EVENT_LETIMER_UF
            else EVENT_NONE)
      else if bit m LETIMERCOMP1_BIT_POS
      then (if bit m LETIMERUF_BIT_POS then EVENT_LETIMER_UF else EVENT_NONE)
      else EVENT_NONE)"
  by (simp add: getNextEvent_fst getNextEvent_snd_bit bit_pos_defs)

section \<open>The acquisition machine: one dispatch\<close>

lemma tsm_guard_fails:
  assumes "\<not> (header evt = sl_bt_evt_system_external_signal_id \<and>
              connection_open (bleData w) \<and> ok_to_send_htm_indications (bleData w))"
  shows "temperature_state_machine_bt en evt w =
           (if connection_open (bleData w) \<and> ok_to_send_htm_indications (bleData w) then w
            else do_call (displayPrintf DISPLAY_ROW_TEMPVALUE [] []) w)"
  using assms unfolding temperature_state_machine_bt_def Let_def by auto

lemma read_transfer_complete_bleData:
  "connection_open (bleData (read_transfer_complete en w)) = connection_open (bleData w) \<and>
   ok_to_send_htm_indications (bleData (read_transfer_complete en w)) =
     ok_to_send_htm_indications (bleData w)"
  unfolding read_transfer_complete_def Let_def do_call_def by simp

lemma read_transfer_complete_state:
  "temperature_nextState (read_transfer_complete en w) = stateIdle"
  unfolding read_transfer_complete_def Let_def by simp

lemma tsm_guard_holds:
  assumes "header evt = sl_bt_evt_system_external_signal_id"
    and "connection_open (bleData w)" and "ok_to_send_htm_indications (bleData w)"
  shows "temperature_state_machine_bt en evt w =
     (case temperature_nextState w of
        stateIdle \<Rightarrow>
          (if bit (extsignals evt) LETIMERUF_BIT_POS
           then (do_call (timerWaitUs_irq SI7021_POR_TIME_US) (do_call si7021TurnOn w))
                  \<lparr>temperature_nextState := waitForSi7021POR\<rparr>
           else w)
      | waitForSi7021POR \<Rightarrow>
          (if bit (extsignals evt) LETIMERCOMP1_BIT_POS
           then (do_call I2C_Write_Data_itr w)\<lparr>temperature_nextState := waitForI2CWriteTransfer\<rparr>
           else w)
      | waitForI2CWriteTransfer \<Rightarrow>
          (if bit (extsignals evt) I2C_TRANSFER_COMPLETE_BIT_POS
           then (do_call (timerWaitUs_irq SI7021_14B_CONVERSION_TIME_US)
                   (do_call NVIC_DisableIRQ w))
                  \<lparr>temperature_nextState := waitForSi7021Conversion\<rparr>
           else w)
      | waitForSi7021Conversion \<Rightarrow>
          (if bit (extsignals evt) LETIMERCOMP1_BIT_POS
           then (do_call I2C_Read_Data_irq w)\<lparr>temperature_nextState := waitForI2CReadTransfer\<rparr>
           else w)
      | waitForI2CReadTransfer \<Rightarrow>
          (if bit (extsignals evt) I2C_TRANSFER_COMPLETE_BIT_POS
           then read_transfer_complete en w
           else w))"
  using assms read_transfer_complete_bleData [of en w]
  unfolding temperature_state_machine_bt_def Let_def mask_test_iff_bit do_call_def
  by (cases "temperature_nextState w") auto

lemma tsm_preserves_preconditions:
  "connection_open (bleData (temperature_state_machine_bt en evt w)) =
     connection_open (bleData w) \<and>
   ok_to_send_htm_indications (bleData (temperature_state_machine_bt en evt w)) =
     ok_to_send_htm_indications (bleData w)"
proof (cases "header evt = sl_bt_evt_system_external_signal_id \<and>
              connection_open (bleData w) \<and> ok_to_send_htm_indications (bleData w)")
  case True
  then show ?thesis
    using read_transfer_complete_bleData [of en w]
    by (cases "temperature_nextState w") (simp_all add: tsm_guard_holds do_call_def)
next
  case False
  then show ?thesis
    by (simp add: tsm_guard_fails do_call_def)
qed

lemma tsm_no_trigger:
  assumes "\<not> bit (extsignals evt) (trigger_bit (temperature_nextState w))"
  shows "temperature_nextState (temperature_state_machine_bt en evt w) = temperature_nextState w"
proof (cases "header evt = sl_bt_evt_system_external_signal_id \<and>
              connection_open (bleData w) \<and> ok_to_send_htm_indications (bleData w)")
  case True
  then show ?thesis
    using assms by (cases "temperature_nextState w") (simp_all add: tsm_guard_holds)
next
  case False
  then show ?thesis
    by (simp add: tsm_guard_fails do_call_def)
qed

lemma tsm_trigger:
  assumes "header evt = sl_bt_evt_system_external_signal_id"
    and "connection_open (bleData w)" and "ok_to_send_htm_indications (bleData w)"
    and "bit (extsignals evt) (trigger_bit (temperature_nextState w))"
  shows "temperature_nextState (temperature_state_machine_bt en evt w) =
           (case temperature_nextState w of
              stateIdle \<Rightarrow> waitForSi7021POR
            | waitForSi7021POR \<Rightarrow> waitForI2CWriteTransfer
            | waitForI2CWriteTransfer \<Rightarrow> waitForSi7021Conversion
            | waitForSi7021Conversion \<Rightarrow> waitForI2CReadTransfer
            | waitForI2CReadTransfer \<Rightarrow> stateIdle)"
  using assms
  by (cases "temperature_nextState w")
     (simp_all add: tsm_guard_holds read_transfer_complete_state)

lemma conv_6A89: "celsius_double 0x6A89 = 3698074130139053 / 140737488355328"
  by code_simp

lemma floor_rat_numeral_divide:
  "\<lfloor>(numeral a / numeral b :: rat)\<rfloor> = numeral a div numeral b"
  by (metis floor_divide_of_int_eq of_int_numeral)

lemma ceiling_rat_neg_numeral_divide:
  "\<lceil>- (numeral a / numeral b :: rat)\<rceil> = - (numeral a div numeral b)"
  by (simp add: ceiling_def floor_rat_numeral_divide)

lemma tc_6A89: "temperature_conversion oor 0x6A89 = 26"
  by (simp add: temperature_conversion_def conv_6A89 double_to_uint32_def Let_def
      truncate_to_zero_def floor_rat_numeral_divide)

lemma conv_17343: "celsius_double 17343 = - (49069228262687 / 140737488355328)"
  by code_simp

lemma tc_17343: "temperature_conversion oor 17343 = 0"
  by (simp add: temperature_conversion_def conv_17343 double_to_uint32_def Let_def
      truncate_to_zero_def ceiling_rat_neg_numeral_divide)


lemma read_transfer_complete_calls:
  assumes "connection_open (bleData w)" and "ok_to_send_htm_indications (bleData w)"
  shows "calls (read_transfer_complete en w) =
     (let t = temperature_conversion (double_out_of_range en) (I2C_Get_Data en);
          buf = UINT8_TO_BITSTREAM flags @
                UINT32_TO_BITSTREAM (INT32_TO_FLOAT (t * 1000) (- 3))
      in calls w @
         [NVIC_DisableIRQ, si7021TurnOff,
          sl_bt_gatt_server_write_attribute_value gattdb_temperature_measurement 0 5 buf] @
         (if indication_in_flight (bleData w) \<and> get_queue_depth en = 0
          then sl_bt_gatt_server_send_indication (connectionHandle (bleData w))
                 gattdb_temperature_measurement 5 buf #
               (if sc en \<noteq> SL_STATUS_OK
                then [LOG_ERROR ''sl_bt_gatt_server_send_indication'' (sc en)] else [])
          else [write_queue gattdb_temperature_measurement 5 buf]) @
         [displayPrintf DISPLAY_ROW_TEMPVALUE ''Temp=%d'' [t]])"
  using assms unfolding read_transfer_complete_def Let_def do_call_def by simp

lemma read_transfer_complete_in_flight:
  assumes "connection_open (bleData w)" and "ok_to_send_htm_indications (bleData w)"
  shows "indication_in_flight (bleData (read_transfer_complete en w)) =
           indication_in_flight (bleData w)"
  using assms unfolding read_transfer_complete_def Let_def do_call_def by simp

lemma buf_26000:
  "UINT8_TO_BITSTREAM flags @ UINT32_TO_BITSTREAM (INT32_TO_FLOAT 26000 (- 3)) =
     [0x00, 0x90, 0x65, 0x00, 0xFD]"
  by (simp add: UINT8_TO_BITSTREAM_def UINT32_TO_BITSTREAM_def INT32_TO_FLOAT_def flags_def)

lemma external_signal_simps:
  "header (external_signal b) = sl_bt_evt_system_external_signal_id"
  by (simp add: external_signal_def)

lemma bit_external_signal:
  "bit (extsignals (external_signal b)) n = (n = b \<and> b < 32)"
  by (auto simp add: external_signal_def bit_simps)

section \<open>The acquisition machine: the cycle\<close>

text \<open>Claim C6. With the connection open and the indications armed, five external-signal
  events that carry, in this order, the underflow, compare-match, transfer-complete,
  compare-match and transfer-complete bit take the machine from \<open>stateIdle\<close> through
  \<open>waitForSi7021POR\<close>, \<open>waitForI2CWriteTransfer\<close>, \<open>waitForSi7021Conversion\<close> and
  \<open>waitForI2CReadTransfer\<close> back to \<open>stateIdle\<close>. And in every state, an event that does
  not carry the trigger bit of that state leaves the state as it is.\<close>

theorem acquisition_cycle:
  assumes "temperature_nextState w = stateIdle"
    and "connection_open (bleData w)" and "ok_to_send_htm_indications (bleData w)"
    and "header e1 = sl_bt_evt_system_external_signal_id"
    and "header e2 = sl_bt_evt_system_external_signal_id"
    and "header e3 = sl_bt_evt_system_external_signal_id"
    and "header e4 = sl_bt_evt_system_external_signal_id"
    and "header e5 = sl_bt_evt_system_external_signal_id"
    and "bit (extsignals e1) LETIMERUF_BIT_POS"
    and "bit (extsignals e2) LETIMERCOMP1_BIT_POS"
    and "bit (extsignals e3) I2C_TRANSFER_COMPLETE_BIT_POS"
    and "bit (extsignals e4) LETIMERCOMP1_BIT_POS"
    and "bit (extsignals e5) I2C_TRANSFER_COMPLETE_BIT_POS"
  shows "fst (run_temperature [(n1, e1), (n2, e2), (n3, e3), (n4, e4), (n5, e5)] w) =
           [waitForSi7021POR, waitForI2CWriteTransfer, waitForSi7021Conversion,
            waitForI2CReadTransfer, stateIdle] \<and>
         (\<forall>en evt v.
            header evt = sl_bt_evt_system_external_signal_id \<and>
            connection_open (bleData v) \<and> ok_to_send_htm_indications (bleData v) \<and>
            \<not> bit (extsignals evt) (trigger_bit (temperature_nextState v)) \<longrightarrow>
            temperature_nextState (temperature_state_machine_bt en evt v) =
              temperature_nextState v)"
proof -
  define w1 where "w1 = temperature_state_machine_bt n1 e1 w"
  define w2 where "w2 = temperature_state_machine_bt n2 e2 w1"
  define w3 where "w3 = temperature_state_machine_bt n3 e3 w2"
  define w4 where "w4 = temperature_state_machine_bt n4 e4 w3"
  define w5 where "w5 = temperature_state_machine_bt n5 e5 w4"
  have p1: "connection_open (bleData w1) \<and> ok_to_send_htm_indications (bleData w1)"
    using assms(2,3) tsm_preserves_preconditions [of n1 e1 w] by (simp add: w1_def)
  have p2: "connection_open (bleData w2) \<and> ok_to_send_htm_indications (bleData w2)"
    using p1 tsm_preserves_preconditions [of n2 e2 w1] by (simp add: w2_def)
  have p3: "connection_open (bleData w3) \<and> ok_to_send_htm_indications (bleData w3)"
    using p2 tsm_preserves_preconditions [of n3 e3 w2] by (simp add: w3_def)
  have p4: "connection_open (bleData w4) \<and> ok_to_send_htm_indications (bleData w4)"
    using p3 tsm_preserves_preconditions [of n4 e4 w3] by (simp add: w4_def)
  have s1: "temperature_nextState w1 = waitForSi7021POR"
    using tsm_trigger [of e1 w n1] assms by (simp add: w1_def)
  have s2: "temperature_nextState w2 = waitForI2CWriteTransfer"
    using tsm_trigger [of e2 w1 n2] assms p1 s1 by (simp add: w2_def)
  have s3: "temperature_nextState w3 = waitForSi7021Conversion"
    using tsm_trigger [of e3 w2 n3] assms p2 s2 by (simp add: w3_def)
  have s4: "temperature_nextState w4 = waitForI2CReadTransfer"
    using tsm_trigger [of e4 w3 n4] assms p3 s3 by (simp add: w4_def)
  have s5: "temperature_nextState w5 = stateIdle"
    using tsm_trigger [of e5 w4 n5] assms p4 s4 by (simp add: w5_def)
  have "fst (run_temperature [(n1, e1), (n2, e2), (n3, e3), (n4, e4), (n5, e5)] w) =
          [temperature_nextState w1, temperature_nextState w2, temperature_nextState w3,
           temperature_nextState w4, temperature_nextState w5]"
    by (simp add: Let_def w1_def w2_def w3_def w4_def w5_def split: prod.splits)
  then show ?thesis
    using s1 s2 s3 s4 s5 tsm_no_trigger by simp
qed


text \<open>The cycle on the freshly started node with one bit per event, and a
  transfer-complete event in \<open>waitForSi7021POR\<close>, which is ignored.\<close>

theorem acquisition_cycle_witness:
  "temperature_nextState world0 = stateIdle \<and>
   connection_open (bleData world0) \<and> ok_to_send_htm_indications (bleData world0) \<and>
   fst (run_temperature
          [(env0, external_signal LETIMERUF_BIT_POS),
           (env0, external_signal LETIMERCOMP1_BIT_POS),
           (env0, external_signal I2C_TRANSFER_COMPLETE_BIT_POS),
           (env0, external_signal LETIMERCOMP1_BIT_POS),
           (env0, external_signal I2C_TRANSFER_COMPLETE_BIT_POS)] world0) =
     [waitForSi7021POR, waitForI2CWriteTransfer, waitForSi7021Conversion,
      waitForI2CReadTransfer, stateIdle] \<and>
   temperature_nextState
     (temperature_state_machine_bt env0 (external_signal I2C_TRANSFER_COMPLETE_BIT_POS)
        (world0\<lparr>temperature_nextState := waitForSi7021POR\<rparr>)) = waitForSi7021POR"
proof -
  have h: "temperature_nextState world0 = stateIdle"
    "connection_open (bleData world0)" "ok_to_send_htm_indications (bleData world0)"
    by (simp_all add: world0_def ble_connected_def)
  have e: "header (external_signal b) = sl_bt_evt_system_external_signal_id" for b
    by (simp add: external_signal_def)
  have b: "bit (extsignals (external_signal LETIMERUF_BIT_POS)) LETIMERUF_BIT_POS"
    "bit (extsignals (external_signal LETIMERCOMP1_BIT_POS)) LETIMERCOMP1_BIT_POS"
    "bit (extsignals (external_signal I2C_TRANSFER_COMPLETE_BIT_POS))
       I2C_TRANSFER_COMPLETE_BIT_POS"
    "\<not> bit (extsignals (external_signal I2C_TRANSFER_COMPLETE_BIT_POS))
         (trigger_bit waitForSi7021POR)"
    by (simp_all add: external_signal_def bit_pos_defs)
  note c = acquisition_cycle [OF h e e e e e b(1) b(2) b(3) b(2) b(3),
      of env0 env0 env0 env0 env0]
  from c have c1: "fst (run_temperature
          [(env0, external_signal LETIMERUF_BIT_POS),
           (env0, external_signal LETIMERCOMP1_BIT_POS),
           (env0, external_signal I2C_TRANSFER_COMPLETE_BIT_POS),
           (env0, external_signal LETIMERCOMP1_BIT_POS),
           (env0, external_signal I2C_TRANSFER_COMPLETE_BIT_POS)] world0) =
     [waitForSi7021POR, waitForI2CWriteTransfer, waitForSi7021Conversion,
      waitForI2CReadTransfer, stateIdle]"
    by (rule conjunct1)
  from c have "temperature_nextState
     (temperature_state_machine_bt env0 (external_signal I2C_TRANSFER_COMPLETE_BIT_POS)
        (world0\<lparr>temperature_nextState := waitForSi7021POR\<rparr>)) =
     temperature_nextState (world0\<lparr>temperature_nextState := waitForSi7021POR\<rparr>)"
    using h e b(4) by simp
  then show ?thesis
    using h c1 by simp
qed

section \<open>The acquisition machine: publishing the reading\<close>

text \<open>Claim C1. The claim is that on the transition out of \<open>waitForI2CReadTransfer\<close>, with the
  connection open and the indications armed, the indication is sent at once exactly when no
  indication is in flight and the queue is empty, and is queued otherwise. The code tests
  \<^verbatim>\<open>!((indication_in_flight == false) || (get_queue_depth() > 0))\<close>, so it does the
  opposite on the in-flight flag. Here is the code on the raw code \<open>0x6A89\<close> with an empty
  queue: with no indication in flight the five bytes are queued with \<^verbatim>\<open>write_queue\<close>,
  nothing is sent and the in-flight flag stays off; with an indication in flight they are
  sent.\<close>

theorem indication_sent_only_when_in_flight:
  "calls (temperature_state_machine_bt env0
            (external_signal I2C_TRANSFER_COMPLETE_BIT_POS) world_reading) =
     [NVIC_DisableIRQ, si7021TurnOff,
      sl_bt_gatt_server_write_attribute_value gattdb_temperature_measurement 0 5
        [0x00, 0x90, 0x65, 0x00, 0xFD],
      write_queue gattdb_temperature_measurement 5 [0x00, 0x90, 0x65, 0x00, 0xFD],
      displayPrintf DISPLAY_ROW_TEMPVALUE ''Temp=%d'' [26]] \<and>
   indication_in_flight
     (bleData (temperature_state_machine_bt env0
                 (external_signal I2C_TRANSFER_COMPLETE_BIT_POS) world_reading)) = False \<and>
   calls (temperature_state_machine_bt env0
            (external_signal I2C_TRANSFER_COMPLETE_BIT_POS)
            (world_reading\<lparr>bleData := ble_connected\<lparr>indication_in_flight := True\<rparr>\<rparr>)) =
     [NVIC_DisableIRQ, si7021TurnOff,
      sl_bt_gatt_server_write_attribute_value gattdb_temperature_measurement 0 5
        [0x00, 0x90, 0x65, 0x00, 0xFD],
      sl_bt_gatt_server_send_indication 1 gattdb_temperature_measurement 5
        [0x00, 0x90, 0x65, 0x00, 0xFD],
      displayPrintf DISPLAY_ROW_TEMPVALUE ''Temp=%d'' [26]]"
  by (simp add: tsm_guard_holds external_signal_simps bit_external_signal
      read_transfer_complete_calls read_transfer_complete_in_flight world_reading_def
      world0_def ble_connected_def env0_def tc_6A89 buf_26000 SL_STATUS_OK_def Let_def
      bit_pos_defs)

text \<open>Claim C2 as stated fails: in \<open>waitForI2CReadTransfer\<close>, with the connection closed, a
  transfer-complete event leaves the machine in \<open>waitForI2CReadTransfer\<close>, and the only call
  it makes clears the display row; the reading is not written to the GATT data base.\<close>

theorem read_complete_connection_closed_counterexample:
  "temperature_nextState
     (temperature_state_machine_bt env0 (external_signal I2C_TRANSFER_COMPLETE_BIT_POS)
        (world_reading\<lparr>bleData := ble_closed\<rparr>)) = waitForI2CReadTransfer \<and>
   calls
     (temperature_state_machine_bt env0 (external_signal I2C_TRANSFER_COMPLETE_BIT_POS)
        (world_reading\<lparr>bleData := ble_closed\<rparr>)) =
     [displayPrintf DISPLAY_ROW_TEMPVALUE [] []]"
  by (simp add: tsm_guard_fails world_reading_def world0_def ble_closed_def
      ble_connected_def do_call_def)

text \<open>Claim C2, amended. For every dispatch in \<open>waitForI2CReadTransfer\<close> with the
  transfer-complete bit in an external-signal event and the connection closed, the machine
  clears the display row and does nothing else: the state stays \<open>waitForI2CReadTransfer\<close>,
  the reading is neither converted nor written to the GATT data base, and no indication is
  sent or queued.\<close>

theorem read_complete_connection_closed:
  assumes "temperature_nextState w = waitForI2CReadTransfer"
    and "header evt = sl_bt_evt_system_external_signal_id"
    and "bit (extsignals evt) I2C_TRANSFER_COMPLETE_BIT_POS"
    and "connection_open (bleData w) = False"
  shows "temperature_state_machine_bt en evt w =
           w\<lparr>calls := calls w @ [displayPrintf DISPLAY_ROW_TEMPVALUE [] []]\<rparr>"
  using assms by (simp add: tsm_guard_fails do_call_def)

text \<open>The theorem on a node that waits for the read transfer when the connection is
  closed.\<close>

theorem read_complete_connection_closed_witness:
  "temperature_nextState (world_reading\<lparr>bleData := ble_closed\<rparr>) = waitForI2CReadTransfer \<and>
   header (external_signal I2C_TRANSFER_COMPLETE_BIT_POS) =
     sl_bt_evt_system_external_signal_id \<and>
   bit (extsignals (external_signal I2C_TRANSFER_COMPLETE_BIT_POS))
     I2C_TRANSFER_COMPLETE_BIT_POS \<and>
   connection_open (bleData (world_reading\<lparr>bleData := ble_closed\<rparr>)) = False \<and>
   temperature_state_machine_bt env0 (external_signal I2C_TRANSFER_COMPLETE_BIT_POS)
     (world_reading\<lparr>bleData := ble_closed\<rparr>) =
   world_reading\<lparr>bleData := ble_closed,
                  calls := [displayPrintf DISPLAY_ROW_TEMPVALUE [] []]\<rparr>"
proof -
  have h: "temperature_nextState (world_reading\<lparr>bleData := ble_closed\<rparr>) =
             waitForI2CReadTransfer"
    "header (external_signal I2C_TRANSFER_COMPLETE_BIT_POS) =
       sl_bt_evt_system_external_signal_id"
    "bit (extsignals (external_signal I2C_TRANSFER_COMPLETE_BIT_POS))
       I2C_TRANSFER_COMPLETE_BIT_POS"
    "connection_open (bleData (world_reading\<lparr>bleData := ble_closed\<rparr>)) = False"
    by (simp_all add: world_reading_def world0_def ble_closed_def ble_connected_def
        external_signal_simps bit_external_signal bit_pos_defs)
  have "calls (world_reading\<lparr>bleData := ble_closed\<rparr>) = []"
    by (simp add: world_reading_def world0_def)
  then show ?thesis
    using h read_complete_connection_closed [OF h, of env0] by simp
qed

text \<open>Claim C3 as stated fails: a connection-opened event (not an external signal) that
  arrives while the connection is open and the indications are armed leaves the node as it
  is; no call is made, so the display row is not cleared.\<close>

theorem precondition_fails_counterexample:
  "temperature_state_machine_bt env0 (stack_event sl_bt_evt_connection_opened_id) world0 =
     world0 \<and>
   calls world0 = []"
  by (simp add: tsm_guard_fails stack_event_def world0_def ble_connected_def)

text \<open>Claim C3, amended. For every dispatch in which one of the three preconditions fails,
  the held state after the dispatch is the state before it. The display row is cleared, and
  nothing else happens, when the connection is closed or the indications are not armed; when
  only the event is not an external signal, the dispatch changes nothing and makes no
  call.\<close>

theorem precondition_fails:
  assumes "header evt \<noteq> sl_bt_evt_system_external_signal_id \<or>
           connection_open (bleData w) = False \<or>
           ok_to_send_htm_indications (bleData w) = False"
  shows "temperature_nextState (temperature_state_machine_bt en evt w) =
           temperature_nextState w \<and>
         temperature_state_machine_bt en evt w =
           (if connection_open (bleData w) = False \<or>
               ok_to_send_htm_indications (bleData w) = False
            then w\<lparr>calls := calls w @ [displayPrintf DISPLAY_ROW_TEMPVALUE [] []]\<rparr>
            else w)"
  using assms tsm_guard_fails [of evt w en] by (auto simp add: do_call_def)

text \<open>The theorem on an underflow event with the connection closed, and on a
  connection-closed event of the stack with the connection data still open and armed.\<close>

theorem precondition_fails_witness:
  "temperature_state_machine_bt env0 (external_signal LETIMERUF_BIT_POS)
     (world0\<lparr>bleData := ble_closed\<rparr>) =
     world0\<lparr>bleData := ble_closed, calls := [displayPrintf DISPLAY_ROW_TEMPVALUE [] []]\<rparr> \<and>
   temperature_state_machine_bt env0 (stack_event sl_bt_evt_connection_closed_id) world0 =
     world0"
proof -
  have a: "connection_open (bleData (world0\<lparr>bleData := ble_closed\<rparr>)) = False"
    by (simp add: ble_closed_def)
  have b: "header (stack_event sl_bt_evt_connection_closed_id) \<noteq>
             sl_bt_evt_system_external_signal_id"
    by (simp add: stack_event_def)
  have c: "connection_open (bleData world0) \<and> ok_to_send_htm_indications (bleData world0)"
    "calls world0 = []"
    by (simp_all add: world0_def ble_connected_def)
  show ?thesis
    using precondition_fails [of "external_signal LETIMERUF_BIT_POS"
        "world0\<lparr>bleData := ble_closed\<rparr>" env0]
      precondition_fails [of "stack_event sl_bt_evt_connection_closed_id" world0 env0]
      a b c
    by simp
qed

section \<open>The discovery machine\<close>

lemma dsm_state:
  "discovery_nextState (Discovery_State_Machine en evt w) =
     (case discovery_nextState w of
        State_1 \<Rightarrow> if header evt = sl_bt_evt_connection_opened_id then State_2 else State_1
      | State_2 \<Rightarrow> if header evt = sl_bt_evt_gatt_procedure_completed_id then State_3 else State_2
      | State_3 \<Rightarrow> if header evt = sl_bt_evt_gatt_procedure_completed_id then State_4 else State_3
      | State_4 \<Rightarrow> if header evt = sl_bt_evt_gatt_procedure_completed_id then State_5 else State_4
      | State_5 \<Rightarrow> if header evt = sl_bt_evt_gatt_procedure_completed_id then State_6 else State_5
      | State_6 \<Rightarrow> if header evt = sl_bt_evt_gatt_procedure_completed_id then State_7 else State_6
      | State_7 \<Rightarrow> if header evt = sl_bt_evt_connection_closed_id then State_1 else State_7)"
  unfolding Discovery_State_Machine_def Let_def
  by (cases "discovery_nextState w") simp_all

lemma dsm_unchanged:
  assumes "discovery_nextState (Discovery_State_Machine en evt w) = discovery_nextState w"
  shows "Discovery_State_Machine en evt w = w"
  using assms unfolding Discovery_State_Machine_def Let_def
  by (cases "discovery_nextState w") (simp_all split: if_splits)

text \<open>Claim C7. From \<open>State_1\<close>, a connection-opened event leads to \<open>State_2\<close>, five
  procedure-completed events lead through \<open>State_3\<close>, \<open>State_4\<close>, \<open>State_5\<close>, \<open>State_6\<close>
  to \<open>State_7\<close>, a sixth procedure-completed event leaves \<open>State_7\<close> as it is, and a
  connection-closed event in \<open>State_7\<close> leads back to \<open>State_1\<close>.\<close>

theorem discovery_sequence:
  assumes "discovery_nextState w = State_1"
    and "header e1 = sl_bt_evt_connection_opened_id"
    and "header e2 = sl_bt_evt_gatt_procedure_completed_id"
    and "header e3 = sl_bt_evt_gatt_procedure_completed_id"
    and "header e4 = sl_bt_evt_gatt_procedure_completed_id"
    and "header e5 = sl_bt_evt_gatt_procedure_completed_id"
    and "header e6 = sl_bt_evt_gatt_procedure_completed_id"
    and "header e7 = sl_bt_evt_gatt_procedure_completed_id"
    and "header e8 = sl_bt_evt_connection_closed_id"
  shows "fst (run_discovery
                [(n1, e1), (n2, e2), (n3, e3), (n4, e4), (n5, e5), (n6, e6), (n7, e7), (n8, e8)]
                w) =
           [State_2, State_3, State_4, State_5, State_6, State_7, State_7, State_1]"
  using assms by (simp add: Let_def dsm_state split: prod.splits)

text \<open>The sequence on the freshly started node.\<close>

theorem discovery_sequence_witness:
  "discovery_nextState world0 = State_1 \<and>
   fst (run_discovery
          [(env0, stack_event sl_bt_evt_connection_opened_id),
           (env0, stack_event sl_bt_evt_gatt_procedure_completed_id),
           (env0, stack_event sl_bt_evt_gatt_procedure_completed_id),
           (env0, stack_event sl_bt_evt_gatt_procedure_completed_id),
           (env0, stack_event sl_bt_evt_gatt_procedure_completed_id),
           (env0, stack_event sl_bt_evt_gatt_procedure_completed_id),
           (env0, stack_event sl_bt_evt_gatt_procedure_completed_id),
           (env0, stack_event sl_bt_evt_connection_closed_id)] world0) =
     [State_2, State_3, State_4, State_5, State_6, State_7, State_7, State_1]"
proof -
  have s: "discovery_nextState world0 = State_1"
    by (simp add: world0_def)
  have h: "header (stack_event i) = i" for i
    by (simp add: stack_event_def)
  show ?thesis
    using s discovery_sequence [OF s h h h h h h h h, of env0 env0 env0 env0 env0 env0 env0 env0]
    by simp
qed

text \<open>Claim C8. In each of the states \<open>State_2\<close> to \<open>State_6\<close> a connection-closed event
  changes nothing, and the state changes exactly on a procedure-completed event.\<close>

theorem disconnect_mid_discovery:
  assumes "discovery_nextState w \<in> {State_2, State_3, State_4, State_5, State_6}"
  shows "(header evt = sl_bt_evt_connection_closed_id \<longrightarrow>
            Discovery_State_Machine en evt w = w) \<and>
         (discovery_nextState (Discovery_State_Machine en evt w) \<noteq> discovery_nextState w
            \<longleftrightarrow> header evt = sl_bt_evt_gatt_procedure_completed_id)"
proof -
  have a: "discovery_nextState (Discovery_State_Machine en evt w) \<noteq> discovery_nextState w
            \<longleftrightarrow> header evt = sl_bt_evt_gatt_procedure_completed_id"
    using assms by (auto simp add: dsm_state)
  then have "header evt = sl_bt_evt_connection_closed_id \<longrightarrow>
               Discovery_State_Machine en evt w = w"
    using dsm_unchanged [of en evt w] by auto
  with a show ?thesis by simp
qed

text \<open>The theorem in \<open>State_4\<close>: a connection-closed event is ignored, a
  procedure-completed event leads to \<open>State_5\<close>.\<close>

theorem disconnect_mid_discovery_witness:
  "discovery_nextState (world0\<lparr>discovery_nextState := State_4\<rparr>) \<in>
     {State_2, State_3, State_4, State_5, State_6} \<and>
   Discovery_State_Machine env0 (stack_event sl_bt_evt_connection_closed_id)
     (world0\<lparr>discovery_nextState := State_4\<rparr>) = world0\<lparr>discovery_nextState := State_4\<rparr> \<and>
   discovery_nextState
     (Discovery_State_Machine env0 (stack_event sl_bt_evt_gatt_procedure_completed_id)
        (world0\<lparr>discovery_nextState := State_4\<rparr>)) = State_5"
proof -
  have s: "discovery_nextState (world0\<lparr>discovery_nextState := State_4\<rparr>) \<in>
     {State_2, State_3, State_4, State_5, State_6}"
    by simp
  have h: "header (stack_event i) = i" for i
    by (simp add: stack_event_def)
  from disconnect_mid_discovery [OF s, of "stack_event sl_bt_evt_connection_closed_id" env0]
  have c: "Discovery_State_Machine env0 (stack_event sl_bt_evt_connection_closed_id)
     (world0\<lparr>discovery_nextState := State_4\<rparr>) = world0\<lparr>discovery_nextState := State_4\<rparr>"
    using h by simp
  have "discovery_nextState
     (Discovery_State_Machine env0 (stack_event sl_bt_evt_gatt_procedure_completed_id)
        (world0\<lparr>discovery_nextState := State_4\<rparr>)) = State_5"
    by (simp add: dsm_state h)
  with s c show ?thesis by simp
qed

section \<open>The conversion in exact arithmetic\<close>

text \<open>Rounding to a \<^verbatim>\<open>double\<close> changes a value \<open>y\<close> by at most \<open>\<bar>y\<bar> / 2 ^ 53\<close>, so the
  \<^verbatim>\<open>double\<close> result of the conversion lies within \<open>1 / 10 ^ 12\<close> of the exact value of the
  formula. The exact value is a multiple of \<open>4 / 6553600\<close> and never a whole number, so
  both have the same integer part.\<close>

lemma round_half_even_error: "\<bar>of_int (round_half_even z) - z\<bar> \<le> 1 / 2"
proof -
  obtain f where f: "\<lfloor>z\<rfloor> = f" by simp
  have "of_int f \<le> z" "z < of_int f + 1"
    using f by linarith+
  then show ?thesis
    unfolding round_half_even_def Let_def f by (auto simp add: abs_if)
qed

lemma ilog2_lower:
  assumes "0 < x"
  shows "2 powi ilog2 x \<le> x"
proof (cases "1 \<le> x")
  case True
  then have pos: "0 < \<lfloor>x\<rfloor>" by simp
  from bitlen_bounds [OF pos] have b: "2 ^ nat (bitlen \<lfloor>x\<rfloor> - 1) \<le> \<lfloor>x\<rfloor>" by simp
  have "1 \<le> bitlen \<lfloor>x\<rfloor>"
    using pos by (simp add: bitlen_alt_def)
  then have "(2::rat) powi (bitlen \<lfloor>x\<rfloor> - 1) = 2 ^ nat (bitlen \<lfloor>x\<rfloor> - 1)"
    by (simp add: power_int_def)
  also have "\<dots> = of_int (2 ^ nat (bitlen \<lfloor>x\<rfloor> - 1))" by simp
  also have "\<dots> \<le> of_int \<lfloor>x\<rfloor>" using b by (simp only: of_int_le_iff)
  also have "\<dots> \<le> x" by simp
  finally show ?thesis using True by (simp add: ilog2_def)
next
  case False
  with assms have x: "0 < x" "x < 1" by simp_all
  then have "1 < 1 / x" by simp
  then have "1 < \<lceil>1 / x\<rceil>" by (simp add: less_ceiling_iff)
  then have pos: "0 < \<lceil>1 / x\<rceil> - 1" by simp
  define k where "k = nat (bitlen (\<lceil>1 / x\<rceil> - 1))"
  from bitlen_bounds [OF pos] have "\<lceil>1 / x\<rceil> - 1 < 2 ^ k" by (simp add: k_def)
  then have "\<lceil>1 / x\<rceil> \<le> 2 ^ k" by simp
  then have "1 / x \<le> of_int (2 ^ k)" by (simp only: ceiling_le_iff)
  then have "1 / x \<le> 2 ^ k" by simp
  then have "1 / 2 ^ k \<le> x"
    using x by (simp add: field_simps)
  moreover have "(2::rat) powi (- bitlen (\<lceil>1 / x\<rceil> - 1)) = 1 / 2 ^ k"
    using bitlen_nonneg [of "\<lceil>1 / x\<rceil> - 1"]
    by (simp add: power_int_minus_divide power_int_def k_def power_one_over)
  ultimately show ?thesis using False by (simp add: ilog2_def)
qed

lemma round_to_double_error: "\<bar>round_to_double y - y\<bar> \<le> \<bar>y\<bar> / 2 ^ 53"
proof (cases "y = 0")
  case True
  then show ?thesis by (simp add: round_to_double_def)
next
  case False
  define s :: rat where "s = 2 powi (ilog2 \<bar>y\<bar> - 52)"
  have s_pos: "0 < s" by (simp add: s_def)
  have s_eq: "s = 2 powi ilog2 \<bar>y\<bar> / 2 ^ 52"
    by (simp add: s_def power_int_diff)
  have "2 powi ilog2 \<bar>y\<bar> \<le> \<bar>y\<bar>"
    using False by (intro ilog2_lower) simp
  then have s_le: "s / 2 \<le> \<bar>y\<bar> / 2 ^ 53"
    by (simp add: s_eq)
  have "round_to_double y - y = (of_int (round_half_even (y / s)) - y / s) * s"
    using False s_pos by (simp add: round_to_double_def s_def Let_def field_simps)
  then have "\<bar>round_to_double y - y\<bar> = \<bar>of_int (round_half_even (y / s)) - y / s\<bar> * s"
    using s_pos by (simp add: abs_mult)
  also have "\<dots> \<le> (1 / 2) * s"
    using round_half_even_error [of "y / s"] s_pos by (intro mult_right_mono) simp_all
  finally show ?thesis using s_le by simp
qed

lemma double_175_72: "round_to_double (17572 / 100) = 6182597863449559 / 35184372088832"
  by code_simp

lemma double_46_85: "round_to_double (4685 / 100) = 6593551329447117 / 140737488355328"
  by code_simp

lemma celsius_double_close:
  "\<bar>celsius_double raw - celsius_exact raw\<bar> \<le> 1 / 10 ^ 12"
proof -
  define x :: rat where "x = of_int (uint raw)"
  define a :: rat where "a = 6182597863449559 / 35184372088832"
  define b :: rat where "b = 6593551329447117 / 140737488355328"
  define p where "p = round_to_double (x * a)"
  define q where "q = round_to_double (p / 65536)"
  define r where "r = round_to_double (q - b)"
  have x: "0 \<le> x" "x \<le> 65535"
  proof -
    have "0 \<le> uint raw" by simp
    then show "0 \<le> x" unfolding x_def by (simp only: of_int_0_le_iff)
    have "uint raw < 2 ^ 16" using uint_bounded [of raw] by simp
    then have "uint raw \<le> 65535" by simp
    then have "(of_int (uint raw) :: rat) \<le> of_int 65535" by (simp only: of_int_le_iff)
    then show "x \<le> 65535" unfolding x_def by simp
  qed
  have r_eq: "celsius_double raw = r"
    unfolding celsius_double_def double_175_72 double_46_85 r_def q_def p_def x_def a_def b_def
    by simp
  have e_eq: "celsius_exact raw = x * (17572 / 100) / 65536 - 4685 / 100"
    by (simp add: celsius_exact_def x_def)
  have ep: "\<bar>p - x * a\<bar> \<le> \<bar>x * a\<bar> / 2 ^ 53"
    unfolding p_def by (rule round_to_double_error)
  have eq: "\<bar>q - p / 65536\<bar> \<le> \<bar>p / 65536\<bar> / 2 ^ 53"
    unfolding q_def by (rule round_to_double_error)
  have er: "\<bar>r - (q - b)\<bar> \<le> \<bar>q - b\<bar> / 2 ^ 53"
    unfolding r_def by (rule round_to_double_error)
  have n: "(2::rat) ^ 53 = 9007199254740992" "(10::rat) ^ 12 = 1000000000000"
    "(10::rat) ^ 14 = 100000000000000" "(10::rat) ^ 10 = 10000000000"
    by simp_all
  have xa: "0 \<le> x * a" "x * a \<le> 11600000"
    using x unfolding a_def by linarith+
  have p1: "\<bar>p - x * a\<bar> \<le> 11600000 / 2 ^ 53"
    using ep xa unfolding n by linarith
  have p2: "\<bar>p\<bar> \<le> 11600001"
    using p1 xa unfolding n by linarith
  have q1: "\<bar>q - p / 65536\<bar> \<le> 178 / 2 ^ 53"
    using eq p2 unfolding n by linarith
  have q2: "\<bar>q\<bar> \<le> 178"
    using q1 p2 unfolding n by linarith
  have b: "4685 / 100 \<le> b" "b \<le> 4685 / 100 + 1 / 10 ^ 14"
    unfolding b_def by simp_all
  have t: "x * (17572 / 100) - 1 / 10 ^ 10 \<le> x * a" "x * a \<le> x * (17572 / 100)"
    using x unfolding a_def n by linarith+
  have qb: "\<bar>q - b\<bar> \<le> 225"
    using q2 b unfolding n by linarith
  have "\<bar>q - b\<bar> / 2 ^ 53 \<le> 225 / 2 ^ 53"
    using qb by (simp add: divide_right_mono)
  with er have r1: "\<bar>r - (q - b)\<bar> \<le> 225 / 2 ^ 53"
    by (rule order_trans)
  have "\<bar>r - (x * (17572 / 100) / 65536 - 4685 / 100)\<bar> \<le> 1 / 10 ^ 12"
    using r1 q1 p1 t b unfolding n by linarith
  then show ?thesis by (simp add: r_eq e_eq)
qed

lemma inverse_mod_65536: "65536 dvd (n * 4393 - 76759040 :: int) \<Longrightarrow> 65536 dvd (n - 16384)"
proof -
  assume a: "65536 dvd (n * 4393 - 76759040 :: int)"
  from a have "65536 dvd 6937 * (n * 4393 - 76759040)" by (rule dvd_mult)
  moreover have "6937 * (n * 4393 - 76759040) = (n - 16384) + 65536 * (465 * n - 8124961)"
    by (simp add: algebra_simps)
  ultimately have "65536 dvd (n - 16384) + 65536 * (465 * n - 8124961)" by simp
  then show ?thesis by (simp only: dvd_add_left_iff dvd_triv_left)
qed

lemma exact_never_integer:
  assumes "0 \<le> n" and "n < 65536"
  shows "\<not> 1638400 dvd (n * 4393 - 76759040 :: int)"
proof
  assume d: "1638400 dvd (n * 4393 - 76759040)"
  have "(65536::int) dvd 1638400" by simp
  then have "65536 dvd (n * 4393 - 76759040)" using d by (rule dvd_trans)
  then have "65536 dvd (n - 16384)" by (rule inverse_mod_65536)
  then obtain k where k: "n - 16384 = 65536 * k" by (auto simp: dvd_def)
  with assms have "k = 0" by linarith
  with k have "n = 16384" by simp
  with d show False by simp
qed

lemma exact_numerator_mod:
  assumes "0 \<le> n" and "n < 65536"
  shows "4 \<le> (n * 17572 - 307036160) mod 6553600 \<and>
         (n * 17572 - 307036160) mod 6553600 \<le> (6553596 :: int)"
proof -
  define M where "M = n * 4393 - 76759040"
  have N: "n * 17572 - 307036160 = 4 * M" by (simp add: M_def)
  have "M mod 1638400 \<noteq> 0"
    using exact_never_integer [OF assms] by (simp add: M_def dvd_eq_mod_eq_0)
  moreover have "0 \<le> M mod 1638400" "M mod 1638400 < 1638400" by simp_all
  moreover have "(4 * M) mod 6553600 = 4 * (M mod 1638400)"
    using mult_mod_right [of 4 M 1638400] by simp
  ultimately show ?thesis unfolding N by linarith
qed

lemma celsius_exact_int:
  "celsius_exact raw = of_int (uint raw * 17572 - 307036160) / 6553600"
  by (simp add: celsius_exact_def field_simps)

lemma celsius_double_between:
  fixes raw :: u16
  defines "k \<equiv> (uint raw * 17572 - 307036160) div 6553600"
  shows "of_int k < celsius_double raw \<and> celsius_double raw < of_int k + 1 \<and>
         \<lfloor>celsius_exact raw\<rfloor> = k \<and> \<lceil>celsius_exact raw\<rceil> = k + 1"
proof -
  define N where "N = uint raw * 17572 - 307036160"
  define m where "m = N mod 6553600"
  have n: "0 \<le> uint raw" "uint raw < 65536"
    using uint_bounded [of raw] by simp_all
  have m: "4 \<le> m" "m \<le> 6553596"
    using exact_numerator_mod [OF n] by (simp_all add: m_def N_def)
  have "N = 6553600 * k + m"
    by (simp add: k_def m_def N_def)
  then have "(of_int N :: rat) = 6553600 * of_int k + of_int m"
    by simp
  then have E: "celsius_exact raw = of_int k + of_int m / 6553600"
    by (simp add: celsius_exact_int N_def field_simps)
  have "(of_int 4 :: rat) \<le> of_int m" "(of_int m :: rat) \<le> of_int 6553596"
    using m by (simp_all only: of_int_le_iff)
  then have mr: "(4 :: rat) \<le> of_int m" "(of_int m :: rat) \<le> 6553596"
    by simp_all
  have lo: "of_int k + 4 / 6553600 \<le> celsius_exact raw"
    and hi: "celsius_exact raw \<le> of_int k + 6553596 / 6553600"
    using mr by (simp_all add: E)
  have c: "\<bar>celsius_double raw - celsius_exact raw\<bar> \<le> 1 / 1000000000000"
    using celsius_double_close [of raw] by simp
  have "of_int k < celsius_double raw" "celsius_double raw < of_int k + 1"
    using lo hi c by linarith+
  moreover have "\<lfloor>celsius_exact raw\<rfloor> = k"
    using lo hi by (intro floor_unique) linarith+
  moreover have "\<lceil>celsius_exact raw\<rceil> = k + 1"
    using lo hi by (intro ceiling_unique) (simp, linarith)+
  ultimately show ?thesis by simp
qed

lemma temperature_conversion_cases:
  "temperature_conversion oor raw =
     (if 17474 \<le> uint raw then word_of_int ((uint raw * 17572 - 307036160) div 6553600)
      else if 17101 \<le> uint raw then 0
      else oor)"
proof -
  define k where "k = (uint raw * 17572 - 307036160) div 6553600"
  define r where "r = celsius_double raw"
  have b: "of_int k < r" "r < of_int k + 1"
    using celsius_double_between [of raw] by (simp_all add: k_def r_def)
  have n: "0 \<le> uint raw" "uint raw < 65536"
    using uint_bounded [of raw] by simp_all
  have fl: "\<lfloor>r\<rfloor> = k"
    using b by (intro floor_unique) simp_all
  have ce: "\<lceil>r\<rceil> = k + 1"
    using b by (intro ceiling_unique) simp_all
  consider (pos) "17474 \<le> uint raw" | (zero) "17101 \<le> uint raw" "uint raw \<le> 17473"
    | (neg) "uint raw \<le> 17100"
    by linarith
  then show ?thesis
  proof cases
    case pos
    then have "0 \<le> k" "k \<le> 128"
      using n unfolding k_def by linarith+
    moreover from this b have "0 \<le> r"
      by linarith
    ultimately show ?thesis
      using pos fl by (simp add: temperature_conversion_def double_to_uint32_def Let_def
          truncate_to_zero_def flip: r_def k_def)
  next
    case zero
    then have "k = - 1"
      unfolding k_def by linarith
    moreover from this b have "r < 0"
      by simp
    ultimately show ?thesis
      using zero ce by (simp add: temperature_conversion_def double_to_uint32_def Let_def
          truncate_to_zero_def flip: r_def)
  next
    case neg
    then have "k \<le> - 2"
      using n unfolding k_def by linarith
    moreover from this b have "r < 0"
      by linarith
    ultimately show ?thesis
      using neg ce by (simp add: temperature_conversion_def double_to_uint32_def Let_def
          truncate_to_zero_def flip: r_def)
  qed
qed

lemma truncate_celsius_exact:
  "truncate_to_zero (celsius_exact raw) =
     (if 17474 \<le> uint raw then (uint raw * 17572 - 307036160) div 6553600
      else (uint raw * 17572 - 307036160) div 6553600 + 1)"
proof -
  define N where "N = uint raw * 17572 - 307036160"
  have E: "celsius_exact raw = of_int N / 6553600"
    by (simp add: celsius_exact_int N_def)
  have fc: "\<lfloor>celsius_exact raw\<rfloor> = N div 6553600" "\<lceil>celsius_exact raw\<rceil> = N div 6553600 + 1"
    using celsius_double_between [of raw] by (simp_all add: N_def)
  have ni: "celsius_exact raw \<noteq> 0"
    using fc by (metis ceiling_zero floor_zero add.commute add_cancel_right_right zero_neq_one)
  show ?thesis
  proof (cases "17474 \<le> uint raw")
    case True
    then have "0 \<le> N" by (simp add: N_def)
    then have "0 \<le> celsius_exact raw" by (simp add: E)
    then show ?thesis using True fc by (simp add: truncate_to_zero_def N_def)
  next
    case False
    then have "N < 0" by (simp add: N_def)
    then have "celsius_exact raw < 0" by (simp add: E)
    then show ?thesis using False fc by (simp add: truncate_to_zero_def N_def)
  qed
qed

lemma temperature_conversion_truncates:
  assumes "17101 \<le> uint raw"
  shows "temperature_conversion oor raw = word_of_int (truncate_to_zero (celsius_exact raw)) \<and>
         0 \<le> truncate_to_zero (celsius_exact raw) \<and>
         truncate_to_zero (celsius_exact raw) \<le> 128"
proof -
  have n: "uint raw < 65536"
    using uint_bounded [of raw] by simp
  show ?thesis
  proof (cases "17474 \<le> uint raw")
    case True
    then have "0 \<le> (uint raw * 17572 - 307036160) div 6553600"
      "(uint raw * 17572 - 307036160) div 6553600 \<le> 128"
      using n by linarith+
    with True show ?thesis
      by (simp add: temperature_conversion_cases truncate_celsius_exact)
  next
    case False
    with assms have "(uint raw * 17572 - 307036160) div 6553600 = - 1"
      by linarith
    with False assms show ?thesis
      by (simp add: temperature_conversion_cases truncate_celsius_exact)
  qed
qed

lemma celsius_exact_negative:
  assumes "uint raw \<le> 17473"
  shows "celsius_exact raw < 0"
proof -
  define N where "N = uint raw * 17572 - 307036160"
  have "N < 0"
    using assms by (simp add: N_def)
  then show ?thesis
    by (simp add: celsius_exact_int flip: N_def)
qed

lemma read_transfer_complete_buffer:
  "htm_temperature_buffer (read_transfer_complete en w) =
     UINT8_TO_BITSTREAM flags @
     UINT32_TO_BITSTREAM
       (INT32_TO_FLOAT
          (temperature_conversion (double_out_of_range en) (I2C_Get_Data en) * 1000) (- 3))"
  unfolding read_transfer_complete_def Let_def do_call_def by simp

section \<open>The bytes of the encoded reading\<close>

lemma low_byte_or_high:
  fixes a c :: u32
  assumes "k \<le> 16"
  shows "(ucast (drop_bit k (a OR push_bit 24 c)) :: u8) = ucast (drop_bit k a)"
  using assms by (intro bit_eqI) (auto simp add: bit_simps)

lemma top_byte_or_high:
  fixes a c :: u32
  assumes "a < 2 ^ 24"
  shows "(ucast (drop_bit 24 (a OR push_bit 24 c)) :: u8) = ucast c"
proof -
  have "a AND mask 24 = a"
    using assms by (rule less_mask_eq)
  then have "\<not> bit a n" if "24 \<le> n" for n
    using that by (metis bit_and_iff bit_mask_iff not_le)
  then show ?thesis
    by (intro bit_eqI) (auto simp add: bit_simps)
qed

lemma low_bytes:
  fixes a :: u32
  assumes "a < 2 ^ 24"
  shows "UINT32_TO_BITSTREAM (INT32_TO_FLOAT a (- 3)) =
           [ucast a, ucast (drop_bit 8 a), ucast (drop_bit 16 a), 0xFD]"
proof -
  have a: "a AND 0x00FFFFFF = a"
    using less_mask_eq [OF assms] by (simp add: mask_eq_exp_minus_1)
  have c: "(word_of_int (- 3) :: u32) = 0xFFFFFFFD" "(ucast (0xFFFFFFFD :: u32) :: u8) = 0xFD"
    by simp_all
  show ?thesis
    unfolding UINT32_TO_BITSTREAM_def INT32_TO_FLOAT_def a c(1)
    using low_byte_or_high [of 0 a "0xFFFFFFFD"] low_byte_or_high [of 8 a "0xFFFFFFFD"]
      low_byte_or_high [of 16 a "0xFFFFFFFD"] top_byte_or_high [OF assms, of "0xFFFFFFFD"] c(2)
    by (simp del: push_bit_numeral push_bit_minus_numeral)
qed


lemma byte_of_int:
  fixes m :: int
  assumes "k \<le> 24"
  shows "(ucast (drop_bit k (word_of_int m :: u32)) :: u8) = word_of_int (m div 2 ^ k mod 256)"
proof -
  have "m div 2 ^ k mod 256 = take_bit 8 (drop_bit k m)"
    by (simp add: take_bit_eq_mod drop_bit_eq_div)
  then show ?thesis
    using assms by (intro bit_eqI) (auto simp add: bit_simps)
qed

lemma encode_bytes:
  assumes "0 \<le> T" and "T \<le> 128"
  shows "UINT32_TO_BITSTREAM (INT32_TO_FLOAT (word_of_int T * 1000) (- 3)) =
       [word_of_int (1000 * T mod 256), word_of_int (1000 * T div 256 mod 256),
        word_of_int (1000 * T div 65536 mod 256), 0xFD]"
proof -
  define a :: u32 where "a = word_of_int (1000 * T)"
  have a: "word_of_int T * 1000 = a"
    by (simp add: a_def)
  have "uint a = take_bit LENGTH(32) (1000 * T)"
    unfolding a_def by (rule uint_word_of_int_eq)
  also have "\<dots> = 1000 * T"
    using assms by (simp add: take_bit_int_eq_self)
  finally have "uint a < uint (2 ^ 24 :: u32)"
    using assms by simp
  then have lt: "a < 2 ^ 24"
    by (simp only: word_less_def)
  show ?thesis
    unfolding a low_bytes [OF lt]
    using byte_of_int [of 0 "1000 * T"] byte_of_int [of 8 "1000 * T"]
      byte_of_int [of 16 "1000 * T"]
    by (simp add: a_def)
qed

lemma celsius_exact_6A89: "celsius_exact 0x6A89 = 43051249 / 1638400"
  by (simp add: celsius_exact_def)

lemma truncate_6A89: "truncate_to_zero (celsius_exact 0x6A89) = 26"
  by (simp add: celsius_exact_6A89 truncate_to_zero_def floor_rat_numeral_divide)

lemma celsius_exact_17343: "celsius_exact 17343 = - (571241 / 1638400)"
  by (simp add: celsius_exact_def)

lemma truncate_17343: "truncate_to_zero (celsius_exact 17343) = 0"
  by (simp add: celsius_exact_17343 truncate_to_zero_def ceiling_rat_neg_numeral_divide)

section \<open>The published reading\<close>

text \<open>Claim C9 as stated fails. For the raw code \<open>0x6A89\<close> the formula
  \<open>raw * 175.72 / 65536 - 46.85\<close> gives \<open>43051249 / 1638400\<close>, between 26.27 and 26.28,
  not about 26.99; and the reading that the machine publishes is not the value of the
  formula: the buffer holds the mantissa \<open>0x006590 = 26000\<close> with the exponent byte
  \<open>0xFD = -3\<close>, that is 26.000, and the display shows 26.\<close>

theorem published_reading_counterexample:
  "celsius_exact 0x6A89 = 43051249 / 1638400 \<and>
   2627 / 100 < celsius_exact 0x6A89 \<and> celsius_exact 0x6A89 < 2628 / 100 \<and>
   htm_temperature_buffer
     (temperature_state_machine_bt env0 (external_signal I2C_TRANSFER_COMPLETE_BIT_POS)
        world_reading) = [0x00, 0x90, 0x65, 0x00, 0xFD] \<and>
   last (calls
     (temperature_state_machine_bt env0 (external_signal I2C_TRANSFER_COMPLETE_BIT_POS)
        world_reading)) = displayPrintf DISPLAY_ROW_TEMPVALUE ''Temp=%d'' [26]"
proof -
  have step: "temperature_state_machine_bt env0
      (external_signal I2C_TRANSFER_COMPLETE_BIT_POS) world_reading =
      read_transfer_complete env0 world_reading"
    by (simp add: tsm_guard_holds external_signal_simps bit_external_signal bit_pos_defs
        world_reading_def world0_def ble_connected_def)
  have c: "connection_open (bleData world_reading)"
    "ok_to_send_htm_indications (bleData world_reading)"
    by (simp_all add: world_reading_def world0_def ble_connected_def)
  show ?thesis
    unfolding step read_transfer_complete_buffer read_transfer_complete_calls [OF c]
    by (simp add: celsius_exact_6A89 env0_def tc_6A89 buf_26000 Let_def)
qed

text \<open>Claim C9, amended. On the read-complete transition the two bytes of the sensor are
  an unsigned 16-bit raw code. For every raw code from 17101 on (formula value above -1) the
  published temperature is the value of \<open>raw * 175.72 / 65536 - 46.85\<close> with its fraction
  discarded, a whole number \<open>T\<close> of degrees from 0 to 128. It is encoded into the 5-byte
  buffer as the flags byte \<open>0x00\<close>, the three bytes of the mantissa \<open>1000 * T\<close>, least
  significant first, and the exponent byte \<open>0xFD\<close> (-3); this buffer is written to the GATT
  data base.\<close>

theorem published_reading_encoding:
  assumes "temperature_nextState w = waitForI2CReadTransfer"
    and "header evt = sl_bt_evt_system_external_signal_id"
    and "connection_open (bleData w)" and "ok_to_send_htm_indications (bleData w)"
    and "bit (extsignals evt) I2C_TRANSFER_COMPLETE_BIT_POS"
    and "17101 \<le> uint (I2C_Get_Data en)"
  shows "let T = truncate_to_zero (celsius_exact (I2C_Get_Data en));
             buf = [0x00, word_of_int (1000 * T mod 256),
                    word_of_int (1000 * T div 256 mod 256),
                    word_of_int (1000 * T div 65536 mod 256), 0xFD]
         in 0 \<le> T \<and> T \<le> 128 \<and>
            htm_temperature_buffer (temperature_state_machine_bt en evt w) = buf \<and>
            sl_bt_gatt_server_write_attribute_value gattdb_temperature_measurement 0 5 buf
              \<in> set (calls (temperature_state_machine_bt en evt w))"
proof -
  define T where "T = truncate_to_zero (celsius_exact (I2C_Get_Data en))"
  have t: "temperature_conversion (double_out_of_range en) (I2C_Get_Data en) = word_of_int T"
    "0 \<le> T" "T \<le> 128"
    using temperature_conversion_truncates [OF assms(6)] by (simp_all add: T_def)
  have step: "temperature_state_machine_bt en evt w = read_transfer_complete en w"
    using assms by (simp add: tsm_guard_holds)
  have buf: "UINT8_TO_BITSTREAM flags @
       UINT32_TO_BITSTREAM (INT32_TO_FLOAT (word_of_int T * 1000) (- 3)) =
     [0x00, word_of_int (1000 * T mod 256), word_of_int (1000 * T div 256 mod 256),
      word_of_int (1000 * T div 65536 mod 256), 0xFD]"
    unfolding encode_bytes [OF t(2,3)] by (simp add: UINT8_TO_BITSTREAM_def flags_def)
  have "htm_temperature_buffer (temperature_state_machine_bt en evt w) =
     [0x00, word_of_int (1000 * T mod 256), word_of_int (1000 * T div 256 mod 256),
      word_of_int (1000 * T div 65536 mod 256), 0xFD]"
    unfolding step read_transfer_complete_buffer t(1) buf ..
  moreover have "sl_bt_gatt_server_write_attribute_value gattdb_temperature_measurement 0 5
       [0x00, word_of_int (1000 * T mod 256), word_of_int (1000 * T div 256 mod 256),
        word_of_int (1000 * T div 65536 mod 256), 0xFD]
     \<in> set (calls (temperature_state_machine_bt en evt w))"
    unfolding step read_transfer_complete_calls [OF assms(3,4)] t(1) Let_def buf by simp
  ultimately show ?thesis
    using t(2,3) unfolding Let_def T_def by simp
qed

text \<open>The theorem on the raw code \<open>0x6A89\<close>: the mantissa is 26000.\<close>

theorem published_reading_encoding_witness:
  "temperature_nextState world_reading = waitForI2CReadTransfer \<and>
   connection_open (bleData world_reading) \<and>
   ok_to_send_htm_indications (bleData world_reading) \<and>
   17101 \<le> uint (I2C_Get_Data env0) \<and>
   htm_temperature_buffer
     (temperature_state_machine_bt env0 (external_signal I2C_TRANSFER_COMPLETE_BIT_POS)
        world_reading) = [0x00, 0x90, 0x65, 0x00, 0xFD]"
proof -
  have h: "temperature_nextState world_reading = waitForI2CReadTransfer"
    "header (external_signal I2C_TRANSFER_COMPLETE_BIT_POS) =
       sl_bt_evt_system_external_signal_id"
    "connection_open (bleData world_reading)"
    "ok_to_send_htm_indications (bleData world_reading)"
    "bit (extsignals (external_signal I2C_TRANSFER_COMPLETE_BIT_POS))
       I2C_TRANSFER_COMPLETE_BIT_POS"
    "17101 \<le> uint (I2C_Get_Data env0)"
    by (simp_all add: world_reading_def world0_def ble_connected_def env0_def
        external_signal_simps bit_external_signal bit_pos_defs)
  have r: "I2C_Get_Data env0 = 0x6A89"
    by (simp add: env0_def)
  show ?thesis
    using h published_reading_encoding [OF h]
    by (simp add: Let_def r truncate_6A89)
qed

text \<open>Claim C10 as stated fails. For the raw code 17343 the value of the formula is
  negative (about -0.35), and the stored reading is 0, not a number wrapped modulo \<open>2 ^ 32\<close>,
  whatever the target yields for a conversion out of range.\<close>

theorem negative_reading_counterexample:
  "celsius_exact 17343 < 0 \<and>
   temperature_conversion 0xFFFFFFFF 17343 = 0 \<and>
   temperature_conversion 0 17343 = 0"
  by (simp add: tc_17343 celsius_exact_def)

text \<open>Claim C10, amended. The reading is stored in a \<^verbatim>\<open>uint32_t\<close>. For every raw code from
  17101 on (formula value above -1) the stored reading, which is also the number displayed, is
  the value of the formula with its fraction discarded, a whole number from 0 to 128; for the
  raw codes 17101 to 17473, whose formula value is negative, it is 0. (For the raw codes
  below 17101 the formula value is -1 or less, and C leaves its conversion to \<^verbatim>\<open>uint32_t\<close>
  undefined.)\<close>

theorem reading_truncated:
  assumes "17101 \<le> uint raw"
  shows "temperature_conversion oor raw = word_of_int (truncate_to_zero (celsius_exact raw)) \<and>
         0 \<le> truncate_to_zero (celsius_exact raw) \<and>
         truncate_to_zero (celsius_exact raw) \<le> 128 \<and>
         (uint raw \<le> 17473 \<longrightarrow> celsius_exact raw < 0 \<and> temperature_conversion oor raw = 0) \<and>
         (\<forall>w en evt.
            temperature_nextState w = waitForI2CReadTransfer \<and>
            header evt = sl_bt_evt_system_external_signal_id \<and>
            connection_open (bleData w) \<and> ok_to_send_htm_indications (bleData w) \<and>
            bit (extsignals evt) I2C_TRANSFER_COMPLETE_BIT_POS \<and>
            I2C_Get_Data en = raw \<longrightarrow>
            last (calls (temperature_state_machine_bt en evt w)) =
              displayPrintf DISPLAY_ROW_TEMPVALUE ''Temp=%d''
                [word_of_int (truncate_to_zero (celsius_exact raw))])"
proof -
  note t = temperature_conversion_truncates [OF assms]
  have z: "celsius_exact raw < 0 \<and> temperature_conversion oor raw = 0" if "uint raw \<le> 17473"
    using that assms celsius_exact_negative [of raw]
    by (simp add: temperature_conversion_cases)
  have d: "last (calls (temperature_state_machine_bt en evt w)) =
              displayPrintf DISPLAY_ROW_TEMPVALUE ''Temp=%d''
                [word_of_int (truncate_to_zero (celsius_exact raw))]"
    if "temperature_nextState w = waitForI2CReadTransfer"
      and "header evt = sl_bt_evt_system_external_signal_id"
      and "connection_open (bleData w)" and "ok_to_send_htm_indications (bleData w)"
      and "bit (extsignals evt) I2C_TRANSFER_COMPLETE_BIT_POS"
      and "I2C_Get_Data en = raw" for w en evt
  proof -
    have "temperature_state_machine_bt en evt w = read_transfer_complete en w"
      using that by (simp add: tsm_guard_holds)
    then show ?thesis
      using that temperature_conversion_truncates [OF assms, of "double_out_of_range en"]
      by (simp add: read_transfer_complete_calls Let_def)
  qed
  show ?thesis
    using t z d by blast
qed

text \<open>The theorem on the raw codes \<open>0x6A89\<close>, stored as 26, and 17343, stored as 0.\<close>

theorem reading_truncated_witness:
  "temperature_conversion 0 0x6A89 = 26 \<and>
   truncate_to_zero (celsius_exact 0x6A89) = 26 \<and>
   temperature_conversion 0xFFFFFFFF 17343 = 0 \<and>
   celsius_exact 17343 < 0"
proof -
  have a: "17101 \<le> uint (0x6A89 :: u16)" "17101 \<le> uint (17343 :: u16)"
    "uint (17343 :: u16) \<le> 17473"
    by simp_all
  show ?thesis
    using reading_truncated [OF a(1), of 0] reading_truncated [OF a(2), of "0xFFFFFFFF"] a(3)
    by (simp add: truncate_6A89 truncate_17343)
qed

end
